theory Spec2Isabelle
  imports Complex_Main
begin

section \<open>Numbers, vectors and matrices\<close>

text \<open>
  A C++ \<open>double\<close> is modelled as a real number or the single non-number \<open>NaN\<close>
  (the value of the macro \<open>TUDAT_NAN\<close>). Rounding and overflow are left out: the
  finite doubles are the reals. A result that is not a finite number (a quotient by
  zero) is \<open>NaN\<close>, and \<open>NaN\<close> absorbs every operation.
\<close>

datatype double = Finite real | NaN

instantiation double :: comm_monoid_add
begin

definition zero_double :: double where
  "zero_double = Finite 0"

fun plus_double :: "double \<Rightarrow> double \<Rightarrow> double" where
  "plus_double (Finite a) (Finite b) = Finite (a + b)"
| "plus_double (Finite a) NaN = NaN"
| "plus_double NaN b = NaN"

instance
proof
  fix x y z :: double
  show "0 + x = x"
    by (induct x) (simp_all add: zero_double_def)
  show "x + y = y + x"
    by (induct x; induct y; simp)
  show "x + y + z = x + (y + z)"
    by (induct x; induct y; induct z; simp)
qed

end

instantiation double :: "{minus, uminus, times, inverse}"
begin

fun minus_double :: "double \<Rightarrow> double \<Rightarrow> double" where
  "minus_double (Finite a) (Finite b) = Finite (a - b)"
| "minus_double (Finite a) NaN = NaN"
| "minus_double NaN b = NaN"

fun uminus_double :: "double \<Rightarrow> double" where
  "uminus_double (Finite a) = Finite (- a)"
| "uminus_double NaN = NaN"

fun times_double :: "double \<Rightarrow> double \<Rightarrow> double" where
  "times_double (Finite a) (Finite b) = Finite (a * b)"
| "times_double (Finite a) NaN = NaN"
| "times_double NaN b = NaN"

fun inverse_double :: "double \<Rightarrow> double" where
  "inverse_double (Finite a) = (if a = 0 then NaN else Finite (inverse a))"
| "inverse_double NaN = NaN"

fun divide_double :: "double \<Rightarrow> double \<Rightarrow> double" where
  "divide_double (Finite a) (Finite b) = (if b = 0 then NaN else Finite (a / b))"
| "divide_double (Finite a) NaN = NaN"
| "divide_double NaN b = NaN"

instance ..

end

text \<open>\<open>Eigen::Vector3d\<close>, and a 3 by 3 matrix given by its rows.\<close>

type_synonym vec3 = "double \<times> double \<times> double"

type_synonym mat3 = "vec3 \<times> vec3 \<times> vec3"

fun vsub :: "vec3 \<Rightarrow> vec3 \<Rightarrow> vec3" where
  "vsub (a1, a2, a3) (b1, b2, b3) = (a1 - b1, a2 - b2, a3 - b3)"

fun dot :: "vec3 \<Rightarrow> vec3 \<Rightarrow> double" where
  "dot (a1, a2, a3) (b1, b2, b3) = a1 * b1 + a2 * b2 + a3 * b3"

fun matVec :: "mat3 \<Rightarrow> vec3 \<Rightarrow> vec3" where
  "matVec (r1, r2, r3) v = (dot r1 v, dot r2 v, dot r3 v)"

text \<open>The quadratic form \<open>r\<^sup>T M r\<close> of a dyad \<open>M\<close> at a relative position \<open>r\<close>.\<close>

definition quadraticForm :: "vec3 \<Rightarrow> mat3 \<Rightarrow> double" where
  "quadraticForm r M = dot r (matVec M r)"

text \<open>
  Rows of the connectivity matrices (\<open>Eigen::MatrixXi\<close>): three vertex indices for
  a facet, two for an edge. The indices are C++ \<open>int\<close>s and may be negative.
\<close>

type_synonym facet = "int \<times> int \<times> int"

type_synonym edge = "int \<times> int"

text \<open>
  Reading row \<open>i\<close> of a matrix or entry \<open>i\<close> of a vector. Eigen gives an
  out-of-range read no meaning; the model returns \<open>None\<close> there.
\<close>

definition row :: "'a list \<Rightarrow> int \<Rightarrow> 'a option" where
  "row xs i = (if 0 \<le> i \<and> i < int (length xs) then Some (xs ! nat i) else None)"

section \<open>The geometry cache and the gravity field (polyhedronGravityField.h)\<close>

datatype error = DegenerateGeometryError | InconsistentShapeError

text \<open>
  The members of \<open>PolyhedronGravityCache\<close>. The three shape members are the cache's own
  \<open>const\<close> copies of the constructor arguments.
\<close>

record PolyhedronGravityCache =
  currentBodyFixedPosition :: vec3
  cacheVerticesCoordinates :: "vec3 list"
  cacheVerticesDefiningEachFacet :: "facet list"
  cacheVerticesDefiningEachEdge :: "edge list"
  currentVerticesCoordinatesRelativeToFieldPoint :: "vec3 list"
  currentPerFacetFactor :: "double list"
  currentPerEdgeFactor :: "double list"

text \<open>
  The constructor copies the shape and sets the position to three NaNs. The members
  \<open>currentVerticesCoordinatesRelativeToFieldPoint_\<close>, \<open>currentPerFacetFactor_\<close> and
  \<open>currentPerEdgeFactor_\<close> are not mentioned by it: they are default-constructed
  dynamic Eigen objects, of size zero.
\<close>

definition newPolyhedronGravityCache ::
  "vec3 list \<Rightarrow> facet list \<Rightarrow> edge list \<Rightarrow> PolyhedronGravityCache" where
  "newPolyhedronGravityCache vertices facets edges =
     \<lparr> currentBodyFixedPosition = (NaN, NaN, NaN),
       cacheVerticesCoordinates = vertices,
       cacheVerticesDefiningEachFacet = facets,
       cacheVerticesDefiningEachEdge = edges,
       currentVerticesCoordinatesRelativeToFieldPoint = [],
       currentPerFacetFactor = [],
       currentPerEdgeFactor = [] \<rparr>"

text \<open>
  Construction as an operation that either raises or yields the object. The constructor
  has no \<open>throw\<close> and calls nothing that validates its arguments.
\<close>

definition constructPolyhedronGravityCache ::
  "vec3 list \<Rightarrow> facet list \<Rightarrow> edge list \<Rightarrow> error + PolyhedronGravityCache" where
  "constructPolyhedronGravityCache vertices facets edges =
     Inr (newPolyhedronGravityCache vertices facets edges)"

definition getVerticesCoordinatesRelativeToFieldPoint ::
  "PolyhedronGravityCache \<Rightarrow> vec3 list" where
  "getVerticesCoordinatesRelativeToFieldPoint c =
     currentVerticesCoordinatesRelativeToFieldPoint c"

definition getPerFacetFactor :: "PolyhedronGravityCache \<Rightarrow> double list" where
  "getPerFacetFactor c = currentPerFacetFactor c"

definition getPerEdgeFactor :: "PolyhedronGravityCache \<Rightarrow> double list" where
  "getPerEdgeFactor c = currentPerEdgeFactor c"

text \<open>The members of \<open>PolyhedronGravityField\<close>; the cache is owned through a pointer
  that never leaves the object, so it is held by value.\<close>

record PolyhedronGravityField =
  gravitationalParameter :: double
  volume :: double
  verticesCoordinates :: "vec3 list"
  verticesDefiningEachFacet :: "facet list"
  verticesDefiningEachEdge :: "edge list"
  facetDyads :: "mat3 list"
  edgeDyads :: "mat3 list"
  polyhedronGravityCache :: PolyhedronGravityCache
  fixedReferenceFrame :: string

definition newPolyhedronGravityField ::
  "double \<Rightarrow> double \<Rightarrow> vec3 list \<Rightarrow> facet list \<Rightarrow> edge list \<Rightarrow> mat3 list \<Rightarrow> mat3 list
     \<Rightarrow> string \<Rightarrow> PolyhedronGravityField" where
  "newPolyhedronGravityField mu vol vertices facets edges fDyads eDyads frame =
     \<lparr> gravitationalParameter = mu,
       volume = vol,
       verticesCoordinates = vertices,
       verticesDefiningEachFacet = facets,
       verticesDefiningEachEdge = edges,
       facetDyads = fDyads,
       edgeDyads = eDyads,
       polyhedronGravityCache = newPolyhedronGravityCache vertices facets edges,
       fixedReferenceFrame = frame \<rparr>"

definition constructPolyhedronGravityField ::
  "double \<Rightarrow> double \<Rightarrow> vec3 list \<Rightarrow> facet list \<Rightarrow> edge list \<Rightarrow> mat3 list \<Rightarrow> mat3 list
     \<Rightarrow> string \<Rightarrow> error + PolyhedronGravityField" where
  "constructPolyhedronGravityField mu vol vertices facets edges fDyads eDyads frame =
     Inr (newPolyhedronGravityField mu vol vertices facets edges fDyads eDyads frame)"

definition getFixedReferenceFrame :: "PolyhedronGravityField \<Rightarrow> string" where
  "getFixedReferenceFrame f = fixedReferenceFrame f"

definition getVolume :: "PolyhedronGravityField \<Rightarrow> double" where
  "getVolume f = volume f"

definition getVerticesCoordinates :: "PolyhedronGravityField \<Rightarrow> vec3 list" where
  "getVerticesCoordinates f = verticesCoordinates f"

definition getVerticesDefiningEachFacet :: "PolyhedronGravityField \<Rightarrow> facet list" where
  "getVerticesDefiningEachFacet f = verticesDefiningEachFacet f"

definition getVerticesDefiningEachEdge :: "PolyhedronGravityField \<Rightarrow> edge list" where
  "getVerticesDefiningEachEdge f = verticesDefiningEachEdge f"

definition getFacetDyads :: "PolyhedronGravityField \<Rightarrow> mat3 list" where
  "getFacetDyads f = facetDyads f"

definition getEdgeDyads :: "PolyhedronGravityField \<Rightarrow> mat3 list" where
  "getEdgeDyads f = edgeDyads f"

text \<open>
  The header declares \<open>PolyhedronGravityCache::update\<close> and the four
  \<open>calculatePolyhedron...\<close> evaluation functions and defines them elsewhere. The
  evaluators below take them as parameters; \<open>None\<close> stands for a call with no defined
  outcome.
\<close>

record externs =
  ext_update :: "PolyhedronGravityCache \<Rightarrow> vec3 \<Rightarrow> PolyhedronGravityCache option"
  ext_potential :: "double \<Rightarrow> vec3 list \<Rightarrow> facet list \<Rightarrow> edge list \<Rightarrow> mat3 list
     \<Rightarrow> mat3 list \<Rightarrow> double list \<Rightarrow> double list \<Rightarrow> double option"
  ext_gradient :: "double \<Rightarrow> vec3 list \<Rightarrow> facet list \<Rightarrow> edge list \<Rightarrow> mat3 list
     \<Rightarrow> mat3 list \<Rightarrow> double list \<Rightarrow> double list \<Rightarrow> vec3 option"
  ext_hessian :: "double \<Rightarrow> mat3 list \<Rightarrow> mat3 list \<Rightarrow> double list \<Rightarrow> double list
     \<Rightarrow> mat3 option"
  ext_laplacian :: "double \<Rightarrow> double list \<Rightarrow> double option"

definition getGravitationalPotential ::
  "externs \<Rightarrow> PolyhedronGravityField \<Rightarrow> vec3 \<Rightarrow> (double \<times> PolyhedronGravityField) option" where
  "getGravitationalPotential X f bodyFixedPosition =
     (case ext_update X (polyhedronGravityCache f) bodyFixedPosition of
        None \<Rightarrow> None
      | Some c \<Rightarrow>
          (case ext_potential X (gravitationalParameter f / volume f)
                  (getVerticesCoordinatesRelativeToFieldPoint c)
                  (verticesDefiningEachFacet f) (verticesDefiningEachEdge f)
                  (facetDyads f) (edgeDyads f)
                  (getPerFacetFactor c) (getPerEdgeFactor c) of
             None \<Rightarrow> None
           | Some u \<Rightarrow> Some (u, f\<lparr>polyhedronGravityCache := c\<rparr>)))"

definition getGradientOfPotential ::
  "externs \<Rightarrow> PolyhedronGravityField \<Rightarrow> vec3 \<Rightarrow> (vec3 \<times> PolyhedronGravityField) option" where
  "getGradientOfPotential X f bodyFixedPosition =
     (case ext_update X (polyhedronGravityCache f) bodyFixedPosition of
        None \<Rightarrow> None
      | Some c \<Rightarrow>
          (case ext_gradient X (gravitationalParameter f / volume f)
                  (getVerticesCoordinatesRelativeToFieldPoint c)
                  (verticesDefiningEachFacet f) (verticesDefiningEachEdge f)
                  (facetDyads f) (edgeDyads f)
                  (getPerFacetFactor c) (getPerEdgeFactor c) of
             None \<Rightarrow> None
           | Some g \<Rightarrow> Some (g, f\<lparr>polyhedronGravityCache := c\<rparr>)))"

definition getHessianOfPotential ::
  "externs \<Rightarrow> PolyhedronGravityField \<Rightarrow> vec3 \<Rightarrow> (mat3 \<times> PolyhedronGravityField) option" where
  "getHessianOfPotential X f bodyFixedPosition =
     (case ext_update X (polyhedronGravityCache f) bodyFixedPosition of
        None \<Rightarrow> None
      | Some c \<Rightarrow>
          (case ext_hessian X (gravitationalParameter f / volume f)
                  (facetDyads f) (edgeDyads f)
                  (getPerFacetFactor c) (getPerEdgeFactor c) of
             None \<Rightarrow> None
           | Some h \<Rightarrow> Some (h, f\<lparr>polyhedronGravityCache := c\<rparr>)))"

definition getLaplacianOfPotential ::
  "externs \<Rightarrow> PolyhedronGravityField \<Rightarrow> vec3 \<Rightarrow> (double \<times> PolyhedronGravityField) option" where
  "getLaplacianOfPotential X f bodyFixedPosition =
     (case ext_update X (polyhedronGravityCache f) bodyFixedPosition of
        None \<Rightarrow> None
      | Some c \<Rightarrow>
          (case ext_laplacian X (gravitationalParameter f / volume f)
                  (getPerFacetFactor c) of
             None \<Rightarrow> None
           | Some l \<Rightarrow> Some (l, f\<lparr>polyhedronGravityCache := c\<rparr>)))"

text \<open>A call of one of the four evaluators, and a sequence of such calls on one object.\<close>

datatype call =
    GetGravitationalPotential vec3
  | GetGradientOfPotential vec3
  | GetHessianOfPotential vec3
  | GetLaplacianOfPotential vec3

fun positionOf :: "call \<Rightarrow> vec3" where
  "positionOf (GetGravitationalPotential p) = p"
| "positionOf (GetGradientOfPotential p) = p"
| "positionOf (GetHessianOfPotential p) = p"
| "positionOf (GetLaplacianOfPotential p) = p"

fun perform :: "externs \<Rightarrow> PolyhedronGravityField \<Rightarrow> call \<Rightarrow> PolyhedronGravityField option" where
  "perform X f (GetGravitationalPotential p) = map_option snd (getGravitationalPotential X f p)"
| "perform X f (GetGradientOfPotential p) = map_option snd (getGradientOfPotential X f p)"
| "perform X f (GetHessianOfPotential p) = map_option snd (getHessianOfPotential X f p)"
| "perform X f (GetLaplacianOfPotential p) = map_option snd (getLaplacianOfPotential X f p)"

fun performAll ::
  "externs \<Rightarrow> PolyhedronGravityField \<Rightarrow> call list \<Rightarrow> PolyhedronGravityField option" where
  "performAll X f [] = Some f"
| "performAll X f (c # cs) =
     (case perform X f c of None \<Rightarrow> None | Some f' \<Rightarrow> performAll X f' cs)"

section \<open>The parts of the polyhedron model defined outside the header\<close>

text \<open>
  Equations 27 and 7 of Werner and Scheeres (1997) are cited by the header and written
  out nowhere in the sources. They are parameters: the per-facet factor as a function
  of the three vertices of a facet relative to the field point, the per-edge factor as a
  function of the two vertices of an edge relative to the field point.
\<close>

record formulas =
  perFacetEq27 :: "vec3 \<Rightarrow> vec3 \<Rightarrow> vec3 \<Rightarrow> double"
  perEdgeEq7 :: "vec3 \<Rightarrow> vec3 \<Rightarrow> double"

text \<open>
  Modelled from the spec: \<open>calculatePolyhedronVerticesCoordinatesRelativeToFieldPoint\<close>
  is only declared in the header. Step (1) of \<open>update\<close>: for every vertex, its
  coordinate relative to the position.
\<close>

definition calculatePolyhedronVerticesCoordinatesRelativeToFieldPoint ::
  "vec3 \<Rightarrow> vec3 list \<Rightarrow> vec3 list" where
  "calculatePolyhedronVerticesCoordinatesRelativeToFieldPoint bodyFixedPosition vertices =
     map (\<lambda>v. vsub v bodyFixedPosition) vertices"

text \<open>
  Modelled from the spec: \<open>calculatePolyhedronPerFacetFactor\<close> is only declared in the
  header. Step (2) of \<open>update\<close>: for every facet, the factor of Eq. 27 at the facet's
  vertices. A facet row with a vertex index out of range has no factor.
\<close>

fun facetFactor :: "formulas \<Rightarrow> vec3 list \<Rightarrow> facet \<Rightarrow> double option" where
  "facetFactor N rel (i, j, k) =
     (case row rel i of
        None \<Rightarrow> None
      | Some ri \<Rightarrow>
          (case row rel j of
             None \<Rightarrow> None
           | Some rj \<Rightarrow>
               (case row rel k of
                  None \<Rightarrow> None
                | Some rk \<Rightarrow> Some (perFacetEq27 N ri rj rk))))"

definition calculatePolyhedronPerFacetFactor ::
  "formulas \<Rightarrow> vec3 list \<Rightarrow> facet list \<Rightarrow> double list option" where
  "calculatePolyhedronPerFacetFactor N rel facets = those (map (facetFactor N rel) facets)"

text \<open>
  Modelled from the spec: \<open>calculatePolyhedronPerEdgeFactor\<close> is only declared in the
  header. Step (3) of \<open>update\<close>: for every edge, the factor of Eq. 7 at the edge's
  vertices.
\<close>

fun edgeFactor :: "formulas \<Rightarrow> vec3 list \<Rightarrow> edge \<Rightarrow> double option" where
  "edgeFactor N rel (i, j) =
     (case row rel i of
        None \<Rightarrow> None
      | Some ri \<Rightarrow>
          (case row rel j of
             None \<Rightarrow> None
           | Some rj \<Rightarrow> Some (perEdgeEq7 N ri rj)))"

definition calculatePolyhedronPerEdgeFactor ::
  "formulas \<Rightarrow> vec3 list \<Rightarrow> edge list \<Rightarrow> double list option" where
  "calculatePolyhedronPerEdgeFactor N rel edges = those (map (edgeFactor N rel) edges)"

text \<open>
  Modelled from the spec: \<open>PolyhedronGravityCache::update\<close> is only declared in the
  header. It overwrites the cached position and the three derived members with the
  values for the new position, in the three steps above.
\<close>

definition update ::
  "formulas \<Rightarrow> PolyhedronGravityCache \<Rightarrow> vec3 \<Rightarrow> PolyhedronGravityCache option" where
  "update N c currentPosition =
     (let rel = calculatePolyhedronVerticesCoordinatesRelativeToFieldPoint
                  currentPosition (cacheVerticesCoordinates c)
      in case calculatePolyhedronPerFacetFactor N rel (cacheVerticesDefiningEachFacet c) of
           None \<Rightarrow> None
         | Some perFacet \<Rightarrow>
             (case calculatePolyhedronPerEdgeFactor N rel (cacheVerticesDefiningEachEdge c) of
                None \<Rightarrow> None
              | Some perEdge \<Rightarrow>
                  Some (c\<lparr> currentBodyFixedPosition := currentPosition,
                           currentVerticesCoordinatesRelativeToFieldPoint := rel,
                           currentPerFacetFactor := perFacet,
                           currentPerEdgeFactor := perEdge \<rparr>)))"

text \<open>A running sum over the terms of a loop; a term that cannot be formed ends it.\<close>

fun accumulate :: "double \<Rightarrow> double option list \<Rightarrow> double option" where
  "accumulate acc [] = Some acc"
| "accumulate acc (None # ts) = None"
| "accumulate acc (Some t # ts) = accumulate (acc + t) ts"

text \<open>
  The term of edge number \<open>e\<close> in Eq. 10: the quadratic form of the edge's dyad at a
  relative position of the edge, times the edge's factor. The spec names no vertex; the
  first vertex of the row is taken as the point of the edge. The term of a facet is
  analogous.
\<close>

definition edgeTerm ::
  "vec3 list \<Rightarrow> edge list \<Rightarrow> mat3 list \<Rightarrow> double list \<Rightarrow> nat \<Rightarrow> double option" where
  "edgeTerm rel edges dyads factors e =
     (case row rel (fst (edges ! e)) of
        None \<Rightarrow> None
      | Some r \<Rightarrow>
          (case row dyads (int e) of
             None \<Rightarrow> None
           | Some E \<Rightarrow>
               (case row factors (int e) of
                  None \<Rightarrow> None
                | Some L \<Rightarrow> Some (quadraticForm r E * L))))"

definition facetTerm ::
  "vec3 list \<Rightarrow> facet list \<Rightarrow> mat3 list \<Rightarrow> double list \<Rightarrow> nat \<Rightarrow> double option" where
  "facetTerm rel facets dyads factors k =
     (case row rel (fst (facets ! k)) of
        None \<Rightarrow> None
      | Some r \<Rightarrow>
          (case row dyads (int k) of
             None \<Rightarrow> None
           | Some F \<Rightarrow>
               (case row factors (int k) of
                  None \<Rightarrow> None
                | Some w \<Rightarrow> Some (quadraticForm r F * w))))"

text \<open>
  Modelled from the spec: \<open>calculatePolyhedronGravitationalPotential\<close> is only declared
  in the header. Eq. 10: the sum over the edges minus the sum over the facets, times the
  density constant halved.
\<close>

definition calculatePolyhedronGravitationalPotential ::
  "double \<Rightarrow> vec3 list \<Rightarrow> facet list \<Rightarrow> edge list \<Rightarrow> mat3 list \<Rightarrow> mat3 list
     \<Rightarrow> double list \<Rightarrow> double list \<Rightarrow> double option" where
  "calculatePolyhedronGravitationalPotential gravitationalConstantTimesDensity rel
       facets edges fDyads eDyads perFacetFactor perEdgeFactor =
     (case accumulate 0 (map (edgeTerm rel edges eDyads perEdgeFactor) [0..<length edges]) of
        None \<Rightarrow> None
      | Some perEdgeSum \<Rightarrow>
          (case accumulate 0
                  (map (facetTerm rel facets fDyads perFacetFactor) [0..<length facets]) of
             None \<Rightarrow> None
           | Some perFacetSum \<Rightarrow>
               Some (Finite (1 / 2) * gravitationalConstantTimesDensity
                       * (perEdgeSum - perFacetSum))))"

text \<open>
  Modelled from the spec: \<open>calculatePolyhedronLaplacianOfGravitationalPotential\<close> is only
  declared in the header. The spec's sentence on Eq. 17: the density constant times
  (\<open>-4\<pi>\<close> times the sum of the per-facet factors).
\<close>

definition calculatePolyhedronLaplacianOfGravitationalPotential ::
  "double \<Rightarrow> double list \<Rightarrow> double option" where
  "calculatePolyhedronLaplacianOfGravitationalPotential gravitationalConstantTimesDensity
       perFacetFactor =
     Some (gravitationalConstantTimesDensity * (- Finite (4 * pi) * sum_list perFacetFactor))"

text \<open>
  The evaluators with \<open>update\<close>, the potential and the Laplacian as modelled above; the
  gradient and the Hessian stay as they are in \<open>X\<close>.
\<close>

definition specModel :: "formulas \<Rightarrow> externs \<Rightarrow> externs" where
  "specModel N X =
     X\<lparr> ext_update := update N,
        ext_potential := calculatePolyhedronGravitationalPotential,
        ext_laplacian := calculatePolyhedronLaplacianOfGravitationalPotential \<rparr>"

text \<open>
  Every vertex index of every facet and edge row lies within the vertex list, and there
  is one dyad for each facet and each edge.
\<close>

definition inRange :: "'a list \<Rightarrow> int \<Rightarrow> bool" where
  "inRange xs i = (0 \<le> i \<and> i < int (length xs))"

definition consistentConnectivity :: "vec3 list \<Rightarrow> facet list \<Rightarrow> edge list \<Rightarrow> bool" where
  "consistentConnectivity vertices facets edges =
     (list_all (\<lambda>(i, j, k). inRange vertices i \<and> inRange vertices j \<and> inRange vertices k) facets
      \<and> list_all (\<lambda>(i, j). inRange vertices i \<and> inRange vertices j) edges)"

text \<open>
  The state of a field object whose cache holds the same shape as the object itself (as
  after construction) and whose shape is consistent.
\<close>

definition coherent :: "PolyhedronGravityField \<Rightarrow> bool" where
  "coherent f =
     (cacheVerticesCoordinates (polyhedronGravityCache f) = verticesCoordinates f
      \<and> cacheVerticesDefiningEachFacet (polyhedronGravityCache f) = verticesDefiningEachFacet f
      \<and> cacheVerticesDefiningEachEdge (polyhedronGravityCache f) = verticesDefiningEachEdge f
      \<and> consistentConnectivity (verticesCoordinates f) (verticesDefiningEachFacet f)
            (verticesDefiningEachEdge f)
      \<and> length (facetDyads f) = length (verticesDefiningEachFacet f)
      \<and> length (edgeDyads f) = length (verticesDefiningEachEdge f))"

text \<open>The vertex with index \<open>i\<close> relative to the field point \<open>p\<close>.\<close>

definition relativeVertex :: "vec3 list \<Rightarrow> vec3 \<Rightarrow> int \<Rightarrow> vec3" where
  "relativeVertex vertices p i = vsub (vertices ! nat i) p"

text \<open>
  The cache contents derived from a position: the relative coordinates of every vertex
  and the factors of every facet and edge, as functions of the position and the shape.
\<close>

definition relativeCoordinatesAt :: "vec3 list \<Rightarrow> vec3 \<Rightarrow> vec3 list" where
  "relativeCoordinatesAt vertices p = map (\<lambda>v. vsub v p) vertices"

definition perFacetFactorsAt :: "formulas \<Rightarrow> vec3 list \<Rightarrow> facet list \<Rightarrow> vec3 \<Rightarrow> double list" where
  "perFacetFactorsAt N vertices facets p =
     map (\<lambda>(i, j, k). perFacetEq27 N (relativeVertex vertices p i)
            (relativeVertex vertices p j) (relativeVertex vertices p k)) facets"

definition perEdgeFactorsAt :: "formulas \<Rightarrow> vec3 list \<Rightarrow> edge list \<Rightarrow> vec3 \<Rightarrow> double list" where
  "perEdgeFactorsAt N vertices edges p =
     map (\<lambda>(i, j). perEdgeEq7 N (relativeVertex vertices p i) (relativeVertex vertices p j))
       edges"

definition cacheAt :: "formulas \<Rightarrow> PolyhedronGravityCache \<Rightarrow> vec3 \<Rightarrow> PolyhedronGravityCache" where
  "cacheAt N c p =
     c\<lparr> currentBodyFixedPosition := p,
        currentVerticesCoordinatesRelativeToFieldPoint :=
          relativeCoordinatesAt (cacheVerticesCoordinates c) p,
        currentPerFacetFactor :=
          perFacetFactorsAt N (cacheVerticesCoordinates c) (cacheVerticesDefiningEachFacet c) p,
        currentPerEdgeFactor :=
          perEdgeFactorsAt N (cacheVerticesCoordinates c) (cacheVerticesDefiningEachEdge c) p \<rparr>"

text \<open>
  The two sums of Eq. 10 at a field point, written over the rows of the shape: for each
  edge (facet) the quadratic form of its dyad at its first vertex relative to the field
  point, times its factor at that field point.
\<close>

definition edgeSumAt :: "formulas \<Rightarrow> vec3 list \<Rightarrow> edge list \<Rightarrow> mat3 list \<Rightarrow> vec3 \<Rightarrow> double" where
  "edgeSumAt N vertices edges dyads p =
     sum_list (map2 (\<lambda>(i, j) E. quadraticForm (relativeVertex vertices p i) E
                       * perEdgeEq7 N (relativeVertex vertices p i) (relativeVertex vertices p j))
                 edges dyads)"

definition facetSumAt :: "formulas \<Rightarrow> vec3 list \<Rightarrow> facet list \<Rightarrow> mat3 list \<Rightarrow> vec3 \<Rightarrow> double" where
  "facetSumAt N vertices facets dyads p =
     sum_list (map2 (\<lambda>(i, j, k) F. quadraticForm (relativeVertex vertices p i) F
                       * perFacetEq27 N (relativeVertex vertices p i)
                           (relativeVertex vertices p j) (relativeVertex vertices p k))
                 facets dyads)"

section \<open>The element conversion (unifiedStateModelWithExponentialMapElementConversions)\<close>

text \<open>
  The six Keplerian elements, in the order of the state vector indices; the first is the
  semi-latus rectum when the eccentricity is 1. The elements are finite numbers.
\<close>

record KeplerianElements =
  semiMajorAxis :: real
  eccentricity :: real
  inclination :: real
  argumentOfPeriapsis :: real
  longitudeOfAscendingNode :: real
  trueAnomaly :: real

record UnifiedStateModelElements =
  CHodograph :: real
  Rf1Hodograph :: real
  Rf2Hodograph :: real
  e1ExponentialMap :: real
  e2ExponentialMap :: real
  e3ExponentialMap :: real

text \<open>\<open>convertDegreesToRadians\<close> of unitConversions.h, used by the unit tests.\<close>

definition convertDegreesToRadians :: "real \<Rightarrow> real" where
  "convertDegreesToRadians d = d * pi / 180"

text \<open>
  Modelled from the spec: \<open>convertKeplerianToUnifiedStateModelWithExponentialMapElements\<close>
  is called by the unit tests and defined in a file that is not among the sources. The
  three failure conditions are those of the spec; the formulas of the conversion proper
  are given by neither and are the parameter \<open>formula\<close>.
\<close>

definition convertKeplerianToUnifiedStateModelWithExponentialMapElements ::
  "(KeplerianElements \<Rightarrow> real \<Rightarrow> UnifiedStateModelElements) \<Rightarrow> KeplerianElements \<Rightarrow> real
     \<Rightarrow> error + UnifiedStateModelElements" where
  "convertKeplerianToUnifiedStateModelWithExponentialMapElements formula keplerianElements
       centralBodyGravitationalParameter =
     (if eccentricity keplerianElements = 0 \<and> argumentOfPeriapsis keplerianElements \<noteq> 0
        then Inl DegenerateGeometryError
      else if inclination keplerianElements = 0
                \<and> longitudeOfAscendingNode keplerianElements \<noteq> 0
        then Inl DegenerateGeometryError
      else if inclination keplerianElements < 0 \<or> pi < inclination keplerianElements
        then Inl DegenerateGeometryError
      else Inr (formula keplerianElements centralBodyGravitationalParameter))"

text \<open>
  The inputs of the unit test's cases 4, 5 and 8, for which it expects a runtime error,
  and its gravitational parameter.
\<close>

definition testGravitationalParameter :: real where
  "testGravitationalParameter = 132712440018 * 10 ^ 9"

definition testCase4 :: KeplerianElements where
  "testCase4 =
     \<lparr> semiMajorAxis = 15 * 10 ^ 10, eccentricity = 0,
       inclination = convertDegreesToRadians 50,
       argumentOfPeriapsis = convertDegreesToRadians 350,
       longitudeOfAscendingNode = convertDegreesToRadians 15,
       trueAnomaly = convertDegreesToRadians 170 \<rparr>"

definition testCase5 :: KeplerianElements where
  "testCase5 = testCase4\<lparr> eccentricity := 1 / 10, inclination := 0 \<rparr>"

definition testCase8 :: KeplerianElements where
  "testCase8 =
     testCase5\<lparr> eccentricity := 0, inclination := convertDegreesToRadians 200,
                longitudeOfAscendingNode := 0, argumentOfPeriapsis := 0 \<rparr>"

section \<open>A concrete shape\<close>

text \<open>
  The unit tetrahedron: four vertices, four facets listed counter-clockwise as seen from
  outside, six edges, with unit matrices in place of the dyads; and simple stand-ins for
  the two formulas and for the gradient and Hessian functions.
\<close>

definition tetrahedronVertices :: "vec3 list" where
  "tetrahedronVertices =
     [(Finite 0, Finite 0, Finite 0), (Finite 1, Finite 0, Finite 0),
      (Finite 0, Finite 1, Finite 0), (Finite 0, Finite 0, Finite 1)]"

definition tetrahedronFacets :: "facet list" where
  "tetrahedronFacets = [(0, 2, 1), (0, 1, 3), (0, 3, 2), (1, 2, 3)]"

definition tetrahedronEdges :: "edge list" where
  "tetrahedronEdges = [(0, 1), (0, 2), (0, 3), (1, 2), (1, 3), (2, 3)]"

definition unitMatrix :: mat3 where
  "unitMatrix =
     ((Finite 1, Finite 0, Finite 0), (Finite 0, Finite 1, Finite 0),
      (Finite 0, Finite 0, Finite 1))"

definition tetrahedronField :: PolyhedronGravityField where
  "tetrahedronField =
     newPolyhedronGravityField (Finite 2) (Finite (1 / 6)) tetrahedronVertices
       tetrahedronFacets tetrahedronEdges (replicate 4 unitMatrix) (replicate 6 unitMatrix)
       ''Tetra_Fixed''"

definition sampleFormulas :: formulas where
  "sampleFormulas = \<lparr> perFacetEq27 = (\<lambda>ri rj rk. dot ri rk), perEdgeEq7 = dot \<rparr>"

definition sampleExterns :: externs where
  "sampleExterns =
     \<lparr> ext_update = update sampleFormulas,
       ext_potential = calculatePolyhedronGravitationalPotential,
       ext_gradient = (\<lambda>gd rel facets edges fDyads eDyads pf pe. Some (gd, gd, gd)),
       ext_hessian = (\<lambda>gd fDyads eDyads pf pe. Some unitMatrix),
       ext_laplacian = calculatePolyhedronLaplacianOfGravitationalPotential \<rparr>"

definition fieldPointA :: vec3 where
  "fieldPointA = (Finite 3, Finite 0, Finite 0)"

definition fieldPointB :: vec3 where
  "fieldPointB = (Finite 0, Finite 5, Finite 1)"

section \<open>The cache update\<close>

lemma row_relative:
  "inRange vertices i \<Longrightarrow>
     row (calculatePolyhedronVerticesCoordinatesRelativeToFieldPoint p vertices) i
       = Some (relativeVertex vertices p i)"
proof -
  assume r: "inRange vertices i"
  then have "nat i < length vertices"
    by (simp add: inRange_def nat_less_iff)
  with r show ?thesis
    by (simp add: row_def inRange_def relativeVertex_def
          calculatePolyhedronVerticesCoordinatesRelativeToFieldPoint_def)
qed

lemma those_map_Some:
  "(\<And>x. x \<in> set xs \<Longrightarrow> f x = Some (g x)) \<Longrightarrow> those (map f xs) = Some (map g xs)"
  by (induction xs) simp_all

lemma perFacetFactor_consistent:
  assumes "list_all (\<lambda>(i, j, k). inRange vertices i \<and> inRange vertices j \<and> inRange vertices k) facets"
  shows "calculatePolyhedronPerFacetFactor N
           (calculatePolyhedronVerticesCoordinatesRelativeToFieldPoint p vertices) facets
         = Some (perFacetFactorsAt N vertices facets p)"
  unfolding calculatePolyhedronPerFacetFactor_def perFacetFactorsAt_def
proof (rule those_map_Some)
  fix x assume "x \<in> set facets"
  with assms have "case x of (i, j, k) \<Rightarrow> inRange vertices i \<and> inRange vertices j \<and> inRange vertices k"
    by (simp add: list_all_iff)
  then show "facetFactor N (calculatePolyhedronVerticesCoordinatesRelativeToFieldPoint p vertices) x
      = Some (case x of (i, j, k) \<Rightarrow> perFacetEq27 N (relativeVertex vertices p i)
            (relativeVertex vertices p j) (relativeVertex vertices p k))"
    by (cases x) (simp add: row_relative)
qed

lemma perEdgeFactor_consistent:
  assumes "list_all (\<lambda>(i, j). inRange vertices i \<and> inRange vertices j) edges"
  shows "calculatePolyhedronPerEdgeFactor N
           (calculatePolyhedronVerticesCoordinatesRelativeToFieldPoint p vertices) edges
         = Some (perEdgeFactorsAt N vertices edges p)"
  unfolding calculatePolyhedronPerEdgeFactor_def perEdgeFactorsAt_def
proof (rule those_map_Some)
  fix x assume "x \<in> set edges"
  with assms have "case x of (i, j) \<Rightarrow> inRange vertices i \<and> inRange vertices j"
    by (simp add: list_all_iff)
  then show "edgeFactor N (calculatePolyhedronVerticesCoordinatesRelativeToFieldPoint p vertices) x
      = Some (case x of (i, j) \<Rightarrow> perEdgeEq7 N (relativeVertex vertices p i)
            (relativeVertex vertices p j))"
    by (cases x) (simp add: row_relative)
qed

lemma update_consistent:
  assumes "consistentConnectivity (cacheVerticesCoordinates c)
             (cacheVerticesDefiningEachFacet c) (cacheVerticesDefiningEachEdge c)"
  shows "update N c p = Some (cacheAt N c p)"
  using assms
  by (simp add: update_def cacheAt_def consistentConnectivity_def Let_def
        perFacetFactor_consistent perEdgeFactor_consistent relativeCoordinatesAt_def
        calculatePolyhedronVerticesCoordinatesRelativeToFieldPoint_def [symmetric])

lemma cacheAt_shape:
  "cacheVerticesCoordinates (cacheAt N c p) = cacheVerticesCoordinates c"
  "cacheVerticesDefiningEachFacet (cacheAt N c p) = cacheVerticesDefiningEachFacet c"
  "cacheVerticesDefiningEachEdge (cacheAt N c p) = cacheVerticesDefiningEachEdge c"
  by (simp_all add: cacheAt_def)

lemma cacheAt_overwrites: "cacheAt N (cacheAt N c p1) p2 = cacheAt N c p2"
  by (simp add: cacheAt_def)

text \<open>
  Claim C7. After \<open>update(p1); update(p2)\<close> on a cache whose connectivity is within
  the vertex list, both updates are defined and the three getters return the relative
  coordinates, the per-facet factors and the per-edge factors computed from \<open>p2\<close> and
  the shape alone: \<open>p1\<close> does not occur in them. (This holds for equal positions too.)
\<close>

theorem second_update_independent_of_first:
  assumes "consistentConnectivity (cacheVerticesCoordinates c)
             (cacheVerticesDefiningEachFacet c) (cacheVerticesDefiningEachEdge c)"
  shows "\<exists>c1 c2. update N c p1 = Some c1 \<and> update N c1 p2 = Some c2
           \<and> getVerticesCoordinatesRelativeToFieldPoint c2
               = relativeCoordinatesAt (cacheVerticesCoordinates c) p2
           \<and> getPerFacetFactor c2
               = perFacetFactorsAt N (cacheVerticesCoordinates c)
                   (cacheVerticesDefiningEachFacet c) p2
           \<and> getPerEdgeFactor c2
               = perEdgeFactorsAt N (cacheVerticesCoordinates c)
                   (cacheVerticesDefiningEachEdge c) p2"
proof -
  have u1: "update N c p1 = Some (cacheAt N c p1)"
    using assms by (rule update_consistent)
  have "update N (cacheAt N c p1) p2 = Some (cacheAt N (cacheAt N c p1) p2)"
    by (rule update_consistent) (simp add: cacheAt_shape assms)
  then have u2: "update N (cacheAt N c p1) p2 = Some (cacheAt N c p2)"
    by (simp only: cacheAt_overwrites)
  have g: "getVerticesCoordinatesRelativeToFieldPoint (cacheAt N c p2)
               = relativeCoordinatesAt (cacheVerticesCoordinates c) p2"
    "getPerFacetFactor (cacheAt N c p2)
               = perFacetFactorsAt N (cacheVerticesCoordinates c)
                   (cacheVerticesDefiningEachFacet c) p2"
    "getPerEdgeFactor (cacheAt N c p2)
               = perEdgeFactorsAt N (cacheVerticesCoordinates c)
                   (cacheVerticesDefiningEachEdge c) p2"
    by (simp_all add: cacheAt_def getVerticesCoordinatesRelativeToFieldPoint_def
          getPerFacetFactor_def getPerEdgeFactor_def)
  from u1 u2 g show ?thesis by blast
qed

lemma tetrahedron_consistent:
  "consistentConnectivity tetrahedronVertices tetrahedronFacets tetrahedronEdges"
  by (simp add: consistentConnectivity_def inRange_def tetrahedronVertices_def
        tetrahedronFacets_def tetrahedronEdges_def)

lemma newCache_shape:
  "cacheVerticesCoordinates (newPolyhedronGravityCache vs fs es) = vs"
  "cacheVerticesDefiningEachFacet (newPolyhedronGravityCache vs fs es) = fs"
  "cacheVerticesDefiningEachEdge (newPolyhedronGravityCache vs fs es) = es"
  by (simp_all add: newPolyhedronGravityCache_def)

text \<open>
  The hypothesis of C7 holds for the freshly built cache of the unit tetrahedron, updated
  at two different field points.
\<close>

theorem second_update_independent_of_first_witness:
  "consistentConnectivity tetrahedronVertices tetrahedronFacets tetrahedronEdges
   \<and> (\<exists>c1 c2.
         update sampleFormulas
           (newPolyhedronGravityCache tetrahedronVertices tetrahedronFacets tetrahedronEdges)
           fieldPointA = Some c1
         \<and> update sampleFormulas c1 fieldPointB = Some c2
         \<and> getVerticesCoordinatesRelativeToFieldPoint c2
             = relativeCoordinatesAt tetrahedronVertices fieldPointB
         \<and> getPerFacetFactor c2
             = perFacetFactorsAt sampleFormulas tetrahedronVertices tetrahedronFacets fieldPointB
         \<and> getPerEdgeFactor c2
             = perEdgeFactorsAt sampleFormulas tetrahedronVertices tetrahedronEdges fieldPointB)"
  using tetrahedron_consistent
    second_update_independent_of_first
      [of "newPolyhedronGravityCache tetrahedronVertices tetrahedronFacets tetrahedronEdges"
          sampleFormulas fieldPointA fieldPointB]
  by (simp only: newCache_shape simp_thms)

section \<open>Construction\<close>

text \<open>
  Claim C8, as stated, fails: before the first \<open>update\<close> the getters of a fresh cache
  return members of size zero, which hold no NaN.
\<close>

theorem fresh_cache_reads_are_empty_counterexample:
  "getVerticesCoordinatesRelativeToFieldPoint
      (newPolyhedronGravityCache tetrahedronVertices tetrahedronFacets tetrahedronEdges) = []
   \<and> getPerFacetFactor
      (newPolyhedronGravityCache tetrahedronVertices tetrahedronFacets tetrahedronEdges) = []
   \<and> NaN \<notin> set (getPerFacetFactor
      (newPolyhedronGravityCache tetrahedronVertices tetrahedronFacets tetrahedronEdges))
   \<and> NaN \<notin> set (getPerEdgeFactor
      (newPolyhedronGravityCache tetrahedronVertices tetrahedronFacets tetrahedronEdges))"
  by (simp add: newPolyhedronGravityCache_def getPerFacetFactor_def getPerEdgeFactor_def
        getVerticesCoordinatesRelativeToFieldPoint_def)

text \<open>
  Claim C8, amended. A freshly constructed cache stores (NaN, NaN, NaN) as its current
  body-fixed position; its three readable members are default-constructed, so before the
  first \<open>update\<close> the three getters return empty data. The NaN sentinel is in the
  position only.
\<close>

theorem fresh_cache_state:
  "currentBodyFixedPosition (newPolyhedronGravityCache vertices facets edges) = (NaN, NaN, NaN)
   \<and> getVerticesCoordinatesRelativeToFieldPoint
        (newPolyhedronGravityCache vertices facets edges) = []
   \<and> getPerFacetFactor (newPolyhedronGravityCache vertices facets edges) = []
   \<and> getPerEdgeFactor (newPolyhedronGravityCache vertices facets edges) = []"
  by (simp add: newPolyhedronGravityCache_def getPerFacetFactor_def getPerEdgeFactor_def
        getVerticesCoordinatesRelativeToFieldPoint_def)

text \<open>
  Claim C9, as stated, fails: a facet row and two edge rows with vertex indices outside
  the four vertices of the tetrahedron are accepted by both constructors, and the field
  object hands them back.
\<close>

theorem malformed_connectivity_is_constructed_counterexample:
  "\<not> consistentConnectivity tetrahedronVertices [(0, 1, 5)] [(0, 7), (-1, 2)]
   \<and> (\<exists>f. constructPolyhedronGravityField (Finite 2) (Finite (1 / 6)) tetrahedronVertices
              [(0, 1, 5)] [(0, 7), (-1, 2)] [unitMatrix] [unitMatrix, unitMatrix] ''Tetra_Fixed''
            = Inr f
          \<and> getVerticesDefiningEachFacet f = [(0, 1, 5)]
          \<and> getVerticesDefiningEachEdge f = [(0, 7), (-1, 2)])
   \<and> (\<exists>c. constructPolyhedronGravityCache tetrahedronVertices [(0, 1, 5)] [(0, 7), (-1, 2)]
            = Inr c)"
  by (simp add: consistentConnectivity_def inRange_def tetrahedronVertices_def
        constructPolyhedronGravityField_def constructPolyhedronGravityCache_def
        newPolyhedronGravityField_def getVerticesDefiningEachFacet_def
        getVerticesDefiningEachEdge_def)

text \<open>
  Claim C9, amended. The constructors of \<open>PolyhedronGravityField\<close> and
  \<open>PolyhedronGravityCache\<close> validate nothing: for any vertices and any connectivity,
  in range or not, construction succeeds and stores the three arrays as given, in the
  field object and in its cache.
\<close>

theorem construction_stores_any_connectivity:
  "(\<exists>f. constructPolyhedronGravityField mu vol vertices facets edges fDyads eDyads frame = Inr f
        \<and> getVerticesCoordinates f = vertices
        \<and> getVerticesDefiningEachFacet f = facets
        \<and> getVerticesDefiningEachEdge f = edges
        \<and> cacheVerticesCoordinates (polyhedronGravityCache f) = vertices
        \<and> cacheVerticesDefiningEachFacet (polyhedronGravityCache f) = facets
        \<and> cacheVerticesDefiningEachEdge (polyhedronGravityCache f) = edges)
   \<and> (\<exists>c. constructPolyhedronGravityCache vertices facets edges = Inr c
        \<and> cacheVerticesCoordinates c = vertices
        \<and> cacheVerticesDefiningEachFacet c = facets
        \<and> cacheVerticesDefiningEachEdge c = edges)"
  by (simp add: constructPolyhedronGravityField_def constructPolyhedronGravityCache_def
        newPolyhedronGravityField_def newPolyhedronGravityCache_def getVerticesCoordinates_def
        getVerticesDefiningEachFacet_def getVerticesDefiningEachEdge_def)

section \<open>What an evaluator call changes\<close>

text \<open>
  Whatever \<open>update\<close> and the evaluation functions compute, a call of an evaluator
  that returns has applied \<open>update\<close> once, to the cache and at the position of the call,
  and has replaced nothing of the object but its cache.
\<close>

lemma getGravitationalPotential_frame:
  "getGravitationalPotential X f p = Some (u, f') \<Longrightarrow>
     \<exists>c. ext_update X (polyhedronGravityCache f) p = Some c \<and> f' = f\<lparr>polyhedronGravityCache := c\<rparr>"
  by (auto simp add: getGravitationalPotential_def split: option.splits)

lemma getGradientOfPotential_frame:
  "getGradientOfPotential X f p = Some (u, f') \<Longrightarrow>
     \<exists>c. ext_update X (polyhedronGravityCache f) p = Some c \<and> f' = f\<lparr>polyhedronGravityCache := c\<rparr>"
  by (auto simp add: getGradientOfPotential_def split: option.splits)

lemma getHessianOfPotential_frame:
  "getHessianOfPotential X f p = Some (u, f') \<Longrightarrow>
     \<exists>c. ext_update X (polyhedronGravityCache f) p = Some c \<and> f' = f\<lparr>polyhedronGravityCache := c\<rparr>"
  by (auto simp add: getHessianOfPotential_def split: option.splits)

lemma getLaplacianOfPotential_frame:
  "getLaplacianOfPotential X f p = Some (u, f') \<Longrightarrow>
     \<exists>c. ext_update X (polyhedronGravityCache f) p = Some c \<and> f' = f\<lparr>polyhedronGravityCache := c\<rparr>"
  by (auto simp add: getLaplacianOfPotential_def split: option.splits)

lemma perform_frame:
  assumes "perform X f cl = Some f'"
  shows "\<exists>c. ext_update X (polyhedronGravityCache f) (positionOf cl) = Some c
            \<and> f' = f\<lparr>polyhedronGravityCache := c\<rparr>"
proof (cases cl)
  case (GetGravitationalPotential p)
  with assms obtain u where "getGravitationalPotential X f p = Some (u, f')" by auto
  with GetGravitationalPotential show ?thesis
    by (simp add: getGravitationalPotential_frame)
next
  case (GetGradientOfPotential p)
  with assms obtain u where "getGradientOfPotential X f p = Some (u, f')" by auto
  with GetGradientOfPotential show ?thesis
    by (simp add: getGradientOfPotential_frame)
next
  case (GetHessianOfPotential p)
  with assms obtain u where "getHessianOfPotential X f p = Some (u, f')" by auto
  with GetHessianOfPotential show ?thesis
    by (simp add: getHessianOfPotential_frame)
next
  case (GetLaplacianOfPotential p)
  with assms obtain u where "getLaplacianOfPotential X f p = Some (u, f')" by auto
  with GetLaplacianOfPotential show ?thesis
    by (simp add: getLaplacianOfPotential_frame)
qed

lemma performAll_frame:
  "performAll X f calls = Some f' \<Longrightarrow>
     f' = f\<lparr>polyhedronGravityCache := polyhedronGravityCache f'\<rparr>"
proof (induction calls arbitrary: f)
  case Nil
  then show ?case by simp
next
  case (Cons cl calls)
  from Cons.prems obtain g where g: "perform X f cl = Some g" and r: "performAll X g calls = Some f'"
    by (auto split: option.splits)
  from perform_frame [OF g] obtain c where gc: "g = f\<lparr>polyhedronGravityCache := c\<rparr>" by blast
  from Cons.IH [OF r] have "f' = g\<lparr>polyhedronGravityCache := polyhedronGravityCache f'\<rparr>" .
  with gc show ?case by simp
qed

text \<open>
  Claim C10. After construction and after any sequence of calls of the four evaluators,
  the accessors \<open>getVolume\<close>, \<open>getVerticesCoordinates\<close>,
  \<open>getVerticesDefiningEachFacet\<close>, \<open>getVerticesDefiningEachEdge\<close>, \<open>getFacetDyads\<close>,
  \<open>getEdgeDyads\<close> and \<open>getFixedReferenceFrame\<close> return the constructor arguments, and the
  gravitational parameter is the constructor's; the empty sequence is the case of a fresh
  object. This holds for every definition of \<open>update\<close> and of the evaluation functions.
\<close>

theorem shape_unchanged_by_evaluators:
  assumes "performAll X (newPolyhedronGravityField mu vol vertices facets edges fDyads eDyads frame)
             calls = Some f'"
  shows "getVolume f' = vol \<and> getVerticesCoordinates f' = vertices
         \<and> getVerticesDefiningEachFacet f' = facets \<and> getVerticesDefiningEachEdge f' = edges
         \<and> getFacetDyads f' = fDyads \<and> getEdgeDyads f' = eDyads
         \<and> getFixedReferenceFrame f' = frame \<and> gravitationalParameter f' = mu"
proof -
  from performAll_frame [OF assms]
  have "f' = (newPolyhedronGravityField mu vol vertices facets edges fDyads eDyads frame)
               \<lparr>polyhedronGravityCache := polyhedronGravityCache f'\<rparr>" .
  then have "f' = \<lparr> gravitationalParameter = mu, volume = vol, verticesCoordinates = vertices,
       verticesDefiningEachFacet = facets, verticesDefiningEachEdge = edges,
       facetDyads = fDyads, edgeDyads = eDyads,
       polyhedronGravityCache = polyhedronGravityCache f', fixedReferenceFrame = frame \<rparr>"
    by (simp add: newPolyhedronGravityField_def)
  then obtain c where "f' = \<lparr> gravitationalParameter = mu, volume = vol, verticesCoordinates = vertices,
       verticesDefiningEachFacet = facets, verticesDefiningEachEdge = edges,
       facetDyads = fDyads, edgeDyads = eDyads,
       polyhedronGravityCache = c, fixedReferenceFrame = frame \<rparr>" by blast
  then show ?thesis
    by (simp add: getVolume_def getVerticesCoordinates_def getVerticesDefiningEachFacet_def
          getVerticesDefiningEachEdge_def getFacetDyads_def getEdgeDyads_def
          getFixedReferenceFrame_def)
qed

section \<open>The evaluators on the modelled functions\<close>

lemma relativeCoordinatesAt_calc:
  "relativeCoordinatesAt vertices p
     = calculatePolyhedronVerticesCoordinatesRelativeToFieldPoint p vertices"
  by (simp add: relativeCoordinatesAt_def
        calculatePolyhedronVerticesCoordinatesRelativeToFieldPoint_def)

lemma row_nat: "e < length xs \<Longrightarrow> row xs (int e) = Some (xs ! e)"
  by (simp add: row_def)

lemma accumulate_terms: "accumulate acc (map Some ts) = Some (acc + sum_list ts)"
  by (induction ts arbitrary: acc) (simp_all add: add.assoc)

lemma edgeTerm_consistent:
  assumes inr: "list_all (\<lambda>(i, j). inRange vertices i \<and> inRange vertices j) edges"
    and len: "length dyads = length edges"
    and e: "e < length edges"
  shows "edgeTerm (relativeCoordinatesAt vertices p) edges dyads
           (perEdgeFactorsAt N vertices edges p) e
         = Some ((\<lambda>(i, j) E. quadraticForm (relativeVertex vertices p i) E
                    * perEdgeEq7 N (relativeVertex vertices p i) (relativeVertex vertices p j))
                   (edges ! e) (dyads ! e))"
proof -
  obtain i j where ij: "edges ! e = (i, j)" by (cases "edges ! e")
  from e have "edges ! e \<in> set edges" by simp
  with inr ij have "inRange vertices i" 
    by (auto simp add: list_all_iff)
  then have r: "row (relativeCoordinatesAt vertices p) i = Some (relativeVertex vertices p i)"
    by (simp add: relativeCoordinatesAt_calc row_relative)
  from e have f: "row (perEdgeFactorsAt N vertices edges p) (int e)
      = Some (perEdgeEq7 N (relativeVertex vertices p i) (relativeVertex vertices p j))"
    by (simp add: row_def perEdgeFactorsAt_def ij)
  from e len have d: "row dyads (int e) = Some (dyads ! e)"
    by (simp add: row_nat)
  show ?thesis
    by (simp add: edgeTerm_def ij r f d)
qed

lemma facetTerm_consistent:
  assumes inr: "list_all (\<lambda>(i, j, k). inRange vertices i \<and> inRange vertices j
                   \<and> inRange vertices k) facets"
    and len: "length dyads = length facets"
    and e: "e < length facets"
  shows "facetTerm (relativeCoordinatesAt vertices p) facets dyads
           (perFacetFactorsAt N vertices facets p) e
         = Some ((\<lambda>(i, j, k) F. quadraticForm (relativeVertex vertices p i) F
                    * perFacetEq27 N (relativeVertex vertices p i)
                        (relativeVertex vertices p j) (relativeVertex vertices p k))
                   (facets ! e) (dyads ! e))"
proof -
  obtain i j k where ijk: "facets ! e = (i, j, k)" by (cases "facets ! e")
  from e have "facets ! e \<in> set facets" by simp
  with inr ijk have "inRange vertices i" 
    by (auto simp add: list_all_iff)
  then have r: "row (relativeCoordinatesAt vertices p) i = Some (relativeVertex vertices p i)"
    by (simp add: relativeCoordinatesAt_calc row_relative)
  from e have f: "row (perFacetFactorsAt N vertices facets p) (int e)
      = Some (perFacetEq27 N (relativeVertex vertices p i) (relativeVertex vertices p j)
                (relativeVertex vertices p k))"
    by (simp add: row_def perFacetFactorsAt_def ijk)
  from e len have d: "row dyads (int e) = Some (dyads ! e)"
    by (simp add: row_nat)
  show ?thesis
    by (simp add: facetTerm_def ijk r f d)
qed

lemma loop_terms:
  assumes "length ys = length xs"
    and "\<And>e. e < length xs \<Longrightarrow> t e = Some (g (xs ! e) (ys ! e))"
  shows "map t [0..<length xs] = map Some (map2 g xs ys)"
  using assms by (intro nth_equalityI) simp_all

lemma perEdgeSum_consistent:
  assumes "list_all (\<lambda>(i, j). inRange vertices i \<and> inRange vertices j) edges"
    and "length dyads = length edges"
  shows "accumulate 0 (map (edgeTerm (relativeCoordinatesAt vertices p) edges dyads
                              (perEdgeFactorsAt N vertices edges p)) [0..<length edges])
         = Some (edgeSumAt N vertices edges dyads p)"
proof -
  have "map (edgeTerm (relativeCoordinatesAt vertices p) edges dyads
               (perEdgeFactorsAt N vertices edges p)) [0..<length edges]
        = map Some (map2 (\<lambda>(i, j) E. quadraticForm (relativeVertex vertices p i) E
                    * perEdgeEq7 N (relativeVertex vertices p i) (relativeVertex vertices p j))
                 edges dyads)"
    using assms by (intro loop_terms edgeTerm_consistent)
  then show ?thesis
    by (simp only: accumulate_terms edgeSumAt_def add_0_left)
qed

lemma perFacetSum_consistent:
  assumes "list_all (\<lambda>(i, j, k). inRange vertices i \<and> inRange vertices j
                   \<and> inRange vertices k) facets"
    and "length dyads = length facets"
  shows "accumulate 0 (map (facetTerm (relativeCoordinatesAt vertices p) facets dyads
                              (perFacetFactorsAt N vertices facets p)) [0..<length facets])
         = Some (facetSumAt N vertices facets dyads p)"
proof -
  have "map (facetTerm (relativeCoordinatesAt vertices p) facets dyads
               (perFacetFactorsAt N vertices facets p)) [0..<length facets]
        = map Some (map2 (\<lambda>(i, j, k) F. quadraticForm (relativeVertex vertices p i) F
                    * perFacetEq27 N (relativeVertex vertices p i)
                        (relativeVertex vertices p j) (relativeVertex vertices p k))
                 facets dyads)"
    using assms by (intro loop_terms facetTerm_consistent)
  then show ?thesis
    by (simp only: accumulate_terms facetSumAt_def add_0_left)
qed

lemma potential_consistent:
  assumes "consistentConnectivity vertices facets edges"
    and "length fDyads = length facets" and "length eDyads = length edges"
  shows "calculatePolyhedronGravitationalPotential gd (relativeCoordinatesAt vertices p)
           facets edges fDyads eDyads (perFacetFactorsAt N vertices facets p)
           (perEdgeFactorsAt N vertices edges p)
         = Some (Finite (1 / 2) * gd
                  * (edgeSumAt N vertices edges eDyads p - facetSumAt N vertices facets fDyads p))"
  using assms
  by (simp add: calculatePolyhedronGravitationalPotential_def consistentConnectivity_def
        perEdgeSum_consistent perFacetSum_consistent)

lemma specModel_fields:
  "ext_update (specModel N X) = update N"
  "ext_potential (specModel N X) = calculatePolyhedronGravitationalPotential"
  "ext_laplacian (specModel N X) = calculatePolyhedronLaplacianOfGravitationalPotential"
  "ext_gradient (specModel N X) = ext_gradient X"
  "ext_hessian (specModel N X) = ext_hessian X"
  by (simp_all add: specModel_def)

lemma coherent_update:
  assumes "coherent f"
  shows "update N (polyhedronGravityCache f) p = Some (cacheAt N (polyhedronGravityCache f) p)"
  using assms by (intro update_consistent) (simp add: coherent_def)

lemma cacheAt_getters:
  "getVerticesCoordinatesRelativeToFieldPoint (cacheAt N c p)
     = relativeCoordinatesAt (cacheVerticesCoordinates c) p"
  "getPerFacetFactor (cacheAt N c p)
     = perFacetFactorsAt N (cacheVerticesCoordinates c) (cacheVerticesDefiningEachFacet c) p"
  "getPerEdgeFactor (cacheAt N c p)
     = perEdgeFactorsAt N (cacheVerticesCoordinates c) (cacheVerticesDefiningEachEdge c) p"
  "currentBodyFixedPosition (cacheAt N c p) = p"
  by (simp_all add: cacheAt_def getVerticesCoordinatesRelativeToFieldPoint_def
        getPerFacetFactor_def getPerEdgeFactor_def)

lemma perform_potential_specModel:
  assumes "coherent f"
  shows "perform (specModel N X) f (GetGravitationalPotential p)
         = Some (f\<lparr>polyhedronGravityCache := cacheAt N (polyhedronGravityCache f) p\<rparr>)"
proof -
  from assms have sh:
    "cacheVerticesCoordinates (polyhedronGravityCache f) = verticesCoordinates f"
    "cacheVerticesDefiningEachFacet (polyhedronGravityCache f) = verticesDefiningEachFacet f"
    "cacheVerticesDefiningEachEdge (polyhedronGravityCache f) = verticesDefiningEachEdge f"
    and cc: "consistentConnectivity (verticesCoordinates f) (verticesDefiningEachFacet f)
            (verticesDefiningEachEdge f)"
    and lf: "length (facetDyads f) = length (verticesDefiningEachFacet f)"
    and le: "length (edgeDyads f) = length (verticesDefiningEachEdge f)"
    by (simp_all add: coherent_def)
  show ?thesis
    by (simp add: getGravitationalPotential_def specModel_fields coherent_update [OF assms]
          cacheAt_getters sh potential_consistent [OF cc lf le])
qed

lemma perform_laplacian_specModel:
  assumes "coherent f"
  shows "perform (specModel N X) f (GetLaplacianOfPotential p)
         = Some (f\<lparr>polyhedronGravityCache := cacheAt N (polyhedronGravityCache f) p\<rparr>)"
  by (simp add: getLaplacianOfPotential_def specModel_fields coherent_update [OF assms]
        calculatePolyhedronLaplacianOfGravitationalPotential_def)

text \<open>
  Claim C4. On an object with a consistent shape, \<open>getGravitationalPotential\<close> at a
  position \<open>p\<close> returns half the density constant (gravitational parameter divided by
  volume) times the difference of the sum over the edges and the sum over the facets,
  each term being the quadratic form of the dyad at a relative position times the factor,
  all computed for \<open>p\<close>; the cache it leaves is the one derived from \<open>p\<close>. The state of
  the cache before the call does not occur in the result.
\<close>

theorem potential_formula:
  assumes "coherent f"
  shows "getGravitationalPotential (specModel N X) f p
         = Some (Finite (1 / 2) * (gravitationalParameter f / volume f)
                   * (edgeSumAt N (verticesCoordinates f) (verticesDefiningEachEdge f)
                        (edgeDyads f) p
                      - facetSumAt N (verticesCoordinates f) (verticesDefiningEachFacet f)
                          (facetDyads f) p),
                 f\<lparr>polyhedronGravityCache := cacheAt N (polyhedronGravityCache f) p\<rparr>)"
proof -
  from assms have sh:
    "cacheVerticesCoordinates (polyhedronGravityCache f) = verticesCoordinates f"
    "cacheVerticesDefiningEachFacet (polyhedronGravityCache f) = verticesDefiningEachFacet f"
    "cacheVerticesDefiningEachEdge (polyhedronGravityCache f) = verticesDefiningEachEdge f"
    and cc: "consistentConnectivity (verticesCoordinates f) (verticesDefiningEachFacet f)
            (verticesDefiningEachEdge f)"
    and lf: "length (facetDyads f) = length (verticesDefiningEachFacet f)"
    and le: "length (edgeDyads f) = length (verticesDefiningEachEdge f)"
    by (simp_all add: coherent_def)
  show ?thesis
    by (simp add: getGravitationalPotential_def specModel_fields coherent_update [OF assms]
          cacheAt_getters sh potential_consistent [OF cc lf le])
qed

text \<open>
  Claim C5. On an object with a consistent shape, \<open>getLaplacianOfPotential\<close> at a
  position \<open>p\<close> returns the density constant (gravitational parameter divided by volume)
  times (\<open>-4\<pi>\<close> times the sum over the facets of the per-facet factor computed at \<open>p\<close>).
\<close>

theorem laplacian_formula:
  assumes "coherent f"
  shows "getLaplacianOfPotential (specModel N X) f p
         = Some ((gravitationalParameter f / volume f)
                   * (- Finite (4 * pi)
                      * sum_list (perFacetFactorsAt N (verticesCoordinates f)
                                    (verticesDefiningEachFacet f) p)),
                 f\<lparr>polyhedronGravityCache := cacheAt N (polyhedronGravityCache f) p\<rparr>)"
proof -
  from assms have sh:
    "cacheVerticesCoordinates (polyhedronGravityCache f) = verticesCoordinates f"
    "cacheVerticesDefiningEachFacet (polyhedronGravityCache f) = verticesDefiningEachFacet f"
    by (simp_all add: coherent_def)
  show ?thesis
    by (simp add: getLaplacianOfPotential_def specModel_fields coherent_update [OF assms]
          cacheAt_getters sh calculatePolyhedronLaplacianOfGravitationalPotential_def)
qed

section \<open>Sequences of evaluator calls\<close>

lemma performAll_snoc:
  "performAll X f (calls @ [cl])
     = (case performAll X f calls of None \<Rightarrow> None | Some g \<Rightarrow> perform X g cl)"
  by (induction calls arbitrary: f) (simp_all split: option.splits)

lemma perform_coherent:
  assumes "coherent f" and "ext_update X = update N" and "perform X f cl = Some f'"
  shows "f' = f\<lparr>polyhedronGravityCache := cacheAt N (polyhedronGravityCache f) (positionOf cl)\<rparr>"
proof -
  from perform_frame [OF assms(3)] obtain c
    where "update N (polyhedronGravityCache f) (positionOf cl) = Some c"
      and "f' = f\<lparr>polyhedronGravityCache := c\<rparr>"
    by (auto simp add: assms(2))
  with coherent_update [OF assms(1)] show ?thesis by simp
qed

lemma coherent_cacheAt:
  "coherent f \<Longrightarrow> coherent (f\<lparr>polyhedronGravityCache := cacheAt N (polyhedronGravityCache f) p\<rparr>)"
  by (simp add: coherent_def cacheAt_shape)

lemma performAll_coherent:
  "coherent f \<Longrightarrow> ext_update X = update N \<Longrightarrow> performAll X f calls = Some g \<Longrightarrow>
     coherent g \<and> g = f\<lparr>polyhedronGravityCache := polyhedronGravityCache g\<rparr>"
proof (induction calls arbitrary: f)
  case Nil
  then show ?case by simp
next
  case (Cons cl calls)
  from Cons.prems obtain h where h: "perform X f cl = Some h"
    and r: "performAll X h calls = Some g"
    by (auto split: option.splits)
  from perform_coherent [OF Cons.prems(1,2) h]
  have hf: "h = f\<lparr>polyhedronGravityCache := cacheAt N (polyhedronGravityCache f) (positionOf cl)\<rparr>" .
  then have "coherent h"
    using Cons.prems(1) by (simp add: coherent_cacheAt)
  from Cons.IH [OF this Cons.prems(2) r]
  have "coherent g" and "g = h\<lparr>polyhedronGravityCache := polyhedronGravityCache g\<rparr>"
    by simp_all
  with hf show ?case by simp
qed

text \<open>
  What each evaluator hands to the function it calls, when \<open>update\<close> is the modelled one
  and the evaluation function is arbitrary: the density constant, the shape and the
  dyads of the object, and the relative coordinates and factors read from the cache
  after the update, which are those of the position of the call.
\<close>

lemma getGravitationalPotential_reads_updated:
  assumes "coherent f" and "ext_update X = update N"
  shows "getGravitationalPotential X f p
         = map_option (\<lambda>u. (u, f\<lparr>polyhedronGravityCache := cacheAt N (polyhedronGravityCache f) p\<rparr>))
             (ext_potential X (gravitationalParameter f / volume f)
                (relativeCoordinatesAt (verticesCoordinates f) p)
                (verticesDefiningEachFacet f) (verticesDefiningEachEdge f)
                (facetDyads f) (edgeDyads f)
                (perFacetFactorsAt N (verticesCoordinates f) (verticesDefiningEachFacet f) p)
                (perEdgeFactorsAt N (verticesCoordinates f) (verticesDefiningEachEdge f) p))"
proof -
  from assms(1) have sh:
    "cacheVerticesCoordinates (polyhedronGravityCache f) = verticesCoordinates f"
    "cacheVerticesDefiningEachFacet (polyhedronGravityCache f) = verticesDefiningEachFacet f"
    "cacheVerticesDefiningEachEdge (polyhedronGravityCache f) = verticesDefiningEachEdge f"
    by (simp_all add: coherent_def)
  show ?thesis
    by (simp add: getGravitationalPotential_def assms(2) coherent_update [OF assms(1)]
          cacheAt_getters sh split: option.splits)
qed

lemma getGradientOfPotential_reads_updated:
  assumes "coherent f" and "ext_update X = update N"
  shows "getGradientOfPotential X f p
         = map_option (\<lambda>v. (v, f\<lparr>polyhedronGravityCache := cacheAt N (polyhedronGravityCache f) p\<rparr>))
             (ext_gradient X (gravitationalParameter f / volume f)
                (relativeCoordinatesAt (verticesCoordinates f) p)
                (verticesDefiningEachFacet f) (verticesDefiningEachEdge f)
                (facetDyads f) (edgeDyads f)
                (perFacetFactorsAt N (verticesCoordinates f) (verticesDefiningEachFacet f) p)
                (perEdgeFactorsAt N (verticesCoordinates f) (verticesDefiningEachEdge f) p))"
proof -
  from assms(1) have sh:
    "cacheVerticesCoordinates (polyhedronGravityCache f) = verticesCoordinates f"
    "cacheVerticesDefiningEachFacet (polyhedronGravityCache f) = verticesDefiningEachFacet f"
    "cacheVerticesDefiningEachEdge (polyhedronGravityCache f) = verticesDefiningEachEdge f"
    by (simp_all add: coherent_def)
  show ?thesis
    by (simp add: getGradientOfPotential_def assms(2) coherent_update [OF assms(1)]
          cacheAt_getters sh split: option.splits)
qed

lemma getHessianOfPotential_reads_updated:
  assumes "coherent f" and "ext_update X = update N"
  shows "getHessianOfPotential X f p
         = map_option (\<lambda>h. (h, f\<lparr>polyhedronGravityCache := cacheAt N (polyhedronGravityCache f) p\<rparr>))
             (ext_hessian X (gravitationalParameter f / volume f)
                (facetDyads f) (edgeDyads f)
                (perFacetFactorsAt N (verticesCoordinates f) (verticesDefiningEachFacet f) p)
                (perEdgeFactorsAt N (verticesCoordinates f) (verticesDefiningEachEdge f) p))"
proof -
  from assms(1) have sh:
    "cacheVerticesCoordinates (polyhedronGravityCache f) = verticesCoordinates f"
    "cacheVerticesDefiningEachFacet (polyhedronGravityCache f) = verticesDefiningEachFacet f"
    "cacheVerticesDefiningEachEdge (polyhedronGravityCache f) = verticesDefiningEachEdge f"
    by (simp_all add: coherent_def)
  show ?thesis
    by (simp add: getHessianOfPotential_def assms(2) coherent_update [OF assms(1)]
          cacheAt_getters sh split: option.splits)
qed

lemma getLaplacianOfPotential_reads_updated:
  assumes "coherent f" and "ext_update X = update N"
  shows "getLaplacianOfPotential X f p
         = map_option (\<lambda>l. (l, f\<lparr>polyhedronGravityCache := cacheAt N (polyhedronGravityCache f) p\<rparr>))
             (ext_laplacian X (gravitationalParameter f / volume f)
                (perFacetFactorsAt N (verticesCoordinates f) (verticesDefiningEachFacet f) p))"
proof -
  from assms(1) have sh:
    "cacheVerticesCoordinates (polyhedronGravityCache f) = verticesCoordinates f"
    "cacheVerticesDefiningEachFacet (polyhedronGravityCache f) = verticesDefiningEachFacet f"
    by (simp_all add: coherent_def)
  show ?thesis
    by (simp add: getLaplacianOfPotential_def assms(2) coherent_update [OF assms(1)]
          cacheAt_getters sh split: option.splits)
qed

text \<open>
  Claim C6. Let \<open>update\<close> be the modelled one and the four evaluation functions be
  arbitrary, and take any sequence of evaluator calls on an object with a consistent
  shape. In the state \<open>g\<close> before any call of the sequence, each of the four evaluators,
  called at a position \<open>p\<close>, applies \<open>update\<close> once at \<open>p\<close> and hands to its evaluation
  function the relative coordinates and the per-facet and per-edge factors derived from
  \<open>p\<close> (the reads come after the update; nothing of the cache left by earlier calls
  reaches the function), and it leaves the cache derived from \<open>p\<close>. So after the last
  call of the sequence the cache holds that call's position and the relative
  coordinates, per-facet factors and per-edge factors derived from it, and nothing else
  of the object has changed. Every call is the last one of a prefix of the sequence.
\<close>

theorem cache_holds_latest_position:
  assumes "coherent f"
    and "ext_update X = update N"
    and "performAll X f (calls @ [cl]) = Some f'"
  shows "\<exists>g. performAll X f calls = Some g
           \<and> g = f\<lparr>polyhedronGravityCache := polyhedronGravityCache g\<rparr>
           \<and> (\<forall>p. getGravitationalPotential X g p
                 = map_option
                     (\<lambda>u. (u, g\<lparr>polyhedronGravityCache :=
                                  cacheAt N (polyhedronGravityCache g) p\<rparr>))
                     (ext_potential X (gravitationalParameter f / volume f)
                        (relativeCoordinatesAt (verticesCoordinates f) p)
                        (verticesDefiningEachFacet f) (verticesDefiningEachEdge f)
                        (facetDyads f) (edgeDyads f)
                        (perFacetFactorsAt N (verticesCoordinates f)
                           (verticesDefiningEachFacet f) p)
                        (perEdgeFactorsAt N (verticesCoordinates f)
                           (verticesDefiningEachEdge f) p)))
           \<and> (\<forall>p. getGradientOfPotential X g p
                 = map_option
                     (\<lambda>v. (v, g\<lparr>polyhedronGravityCache :=
                                  cacheAt N (polyhedronGravityCache g) p\<rparr>))
                     (ext_gradient X (gravitationalParameter f / volume f)
                        (relativeCoordinatesAt (verticesCoordinates f) p)
                        (verticesDefiningEachFacet f) (verticesDefiningEachEdge f)
                        (facetDyads f) (edgeDyads f)
                        (perFacetFactorsAt N (verticesCoordinates f)
                           (verticesDefiningEachFacet f) p)
                        (perEdgeFactorsAt N (verticesCoordinates f)
                           (verticesDefiningEachEdge f) p)))
           \<and> (\<forall>p. getHessianOfPotential X g p
                 = map_option
                     (\<lambda>h. (h, g\<lparr>polyhedronGravityCache :=
                                  cacheAt N (polyhedronGravityCache g) p\<rparr>))
                     (ext_hessian X (gravitationalParameter f / volume f)
                        (facetDyads f) (edgeDyads f)
                        (perFacetFactorsAt N (verticesCoordinates f)
                           (verticesDefiningEachFacet f) p)
                        (perEdgeFactorsAt N (verticesCoordinates f)
                           (verticesDefiningEachEdge f) p)))
           \<and> (\<forall>p. getLaplacianOfPotential X g p
                 = map_option
                     (\<lambda>l. (l, g\<lparr>polyhedronGravityCache :=
                                  cacheAt N (polyhedronGravityCache g) p\<rparr>))
                     (ext_laplacian X (gravitationalParameter f / volume f)
                        (perFacetFactorsAt N (verticesCoordinates f)
                           (verticesDefiningEachFacet f) p)))
           \<and> ext_update X (polyhedronGravityCache g) (positionOf cl)
               = Some (polyhedronGravityCache f')
           \<and> f' = g\<lparr>polyhedronGravityCache := polyhedronGravityCache f'\<rparr>
           \<and> currentBodyFixedPosition (polyhedronGravityCache f') = positionOf cl
           \<and> getVerticesCoordinatesRelativeToFieldPoint (polyhedronGravityCache f')
               = relativeCoordinatesAt (verticesCoordinates f) (positionOf cl)
           \<and> getPerFacetFactor (polyhedronGravityCache f')
               = perFacetFactorsAt N (verticesCoordinates f) (verticesDefiningEachFacet f)
                   (positionOf cl)
           \<and> getPerEdgeFactor (polyhedronGravityCache f')
               = perEdgeFactorsAt N (verticesCoordinates f) (verticesDefiningEachEdge f)
                   (positionOf cl)"
proof -
  from assms(3) obtain g where g: "performAll X f calls = Some g"
    and l: "perform X g cl = Some f'"
    by (auto simp add: performAll_snoc split: option.splits)
  from performAll_coherent [OF assms(1,2) g]
  have cg: "coherent g" and gf: "g = f\<lparr>polyhedronGravityCache := polyhedronGravityCache g\<rparr>"
    by simp_all
  have sh: "verticesCoordinates g = verticesCoordinates f"
    "verticesDefiningEachFacet g = verticesDefiningEachFacet f"
    "verticesDefiningEachEdge g = verticesDefiningEachEdge f"
    "facetDyads g = facetDyads f" "edgeDyads g = edgeDyads f"
    "gravitationalParameter g = gravitationalParameter f" "volume g = volume f"
    by (subst gf, simp)+
  from cg have shc:
    "cacheVerticesCoordinates (polyhedronGravityCache g) = verticesCoordinates g"
    "cacheVerticesDefiningEachFacet (polyhedronGravityCache g) = verticesDefiningEachFacet g"
    "cacheVerticesDefiningEachEdge (polyhedronGravityCache g) = verticesDefiningEachEdge g"
    by (simp_all add: coherent_def)
  have e1: "\<forall>p. getGravitationalPotential X g p
                 = map_option
                     (\<lambda>u. (u, g\<lparr>polyhedronGravityCache :=
                                  cacheAt N (polyhedronGravityCache g) p\<rparr>))
                     (ext_potential X (gravitationalParameter f / volume f)
                        (relativeCoordinatesAt (verticesCoordinates f) p)
                        (verticesDefiningEachFacet f) (verticesDefiningEachEdge f)
                        (facetDyads f) (edgeDyads f)
                        (perFacetFactorsAt N (verticesCoordinates f)
                           (verticesDefiningEachFacet f) p)
                        (perEdgeFactorsAt N (verticesCoordinates f)
                           (verticesDefiningEachEdge f) p))"
    using getGravitationalPotential_reads_updated [OF cg assms(2)] by (simp only: sh) simp
  have e2: "\<forall>p. getGradientOfPotential X g p
                 = map_option
                     (\<lambda>v. (v, g\<lparr>polyhedronGravityCache :=
                                  cacheAt N (polyhedronGravityCache g) p\<rparr>))
                     (ext_gradient X (gravitationalParameter f / volume f)
                        (relativeCoordinatesAt (verticesCoordinates f) p)
                        (verticesDefiningEachFacet f) (verticesDefiningEachEdge f)
                        (facetDyads f) (edgeDyads f)
                        (perFacetFactorsAt N (verticesCoordinates f)
                           (verticesDefiningEachFacet f) p)
                        (perEdgeFactorsAt N (verticesCoordinates f)
                           (verticesDefiningEachEdge f) p))"
    using getGradientOfPotential_reads_updated [OF cg assms(2)] by (simp only: sh) simp
  have e3: "\<forall>p. getHessianOfPotential X g p
                 = map_option
                     (\<lambda>h. (h, g\<lparr>polyhedronGravityCache :=
                                  cacheAt N (polyhedronGravityCache g) p\<rparr>))
                     (ext_hessian X (gravitationalParameter f / volume f)
                        (facetDyads f) (edgeDyads f)
                        (perFacetFactorsAt N (verticesCoordinates f)
                           (verticesDefiningEachFacet f) p)
                        (perEdgeFactorsAt N (verticesCoordinates f)
                           (verticesDefiningEachEdge f) p))"
    using getHessianOfPotential_reads_updated [OF cg assms(2)] by (simp only: sh) simp
  have e4: "\<forall>p. getLaplacianOfPotential X g p
                 = map_option
                     (\<lambda>l. (l, g\<lparr>polyhedronGravityCache :=
                                  cacheAt N (polyhedronGravityCache g) p\<rparr>))
                     (ext_laplacian X (gravitationalParameter f / volume f)
                        (perFacetFactorsAt N (verticesCoordinates f)
                           (verticesDefiningEachFacet f) p))"
    using getLaplacianOfPotential_reads_updated [OF cg assms(2)] by (simp only: sh) simp
  from perform_coherent [OF cg assms(2) l]
  have f': "f' = g\<lparr>polyhedronGravityCache := cacheAt N (polyhedronGravityCache g) (positionOf cl)\<rparr>" .
  then have c': "polyhedronGravityCache f' = cacheAt N (polyhedronGravityCache g) (positionOf cl)"
    by simp
  have u: "ext_update X (polyhedronGravityCache g) (positionOf cl)
             = Some (polyhedronGravityCache f')"
    by (simp add: assms(2) coherent_update [OF cg] c')
  have fr: "f' = g\<lparr>polyhedronGravityCache := polyhedronGravityCache f'\<rparr>"
    using f' c' by simp
  have rd: "currentBodyFixedPosition (polyhedronGravityCache f') = positionOf cl"
    "getVerticesCoordinatesRelativeToFieldPoint (polyhedronGravityCache f')
               = relativeCoordinatesAt (verticesCoordinates f) (positionOf cl)"
    "getPerFacetFactor (polyhedronGravityCache f')
               = perFacetFactorsAt N (verticesCoordinates f) (verticesDefiningEachFacet f)
                   (positionOf cl)"
    "getPerEdgeFactor (polyhedronGravityCache f')
               = perEdgeFactorsAt N (verticesCoordinates f) (verticesDefiningEachEdge f)
                   (positionOf cl)"
    by (simp_all add: c' cacheAt_getters shc sh)
  show ?thesis
    by (intro exI [of _ g] conjI g gf e1 e2 e3 e4 u fr rd)
qed

section \<open>The unit tetrahedron, evaluated\<close>

lemma tetrahedron_counts: "length tetrahedronFacets = 4" "length tetrahedronEdges = 6"
  by (simp_all add: tetrahedronFacets_def tetrahedronEdges_def)

lemma tetrahedronField_coherent: "coherent tetrahedronField"
  by (simp add: coherent_def tetrahedronField_def newPolyhedronGravityField_def
        newPolyhedronGravityCache_def tetrahedron_consistent tetrahedron_counts)

lemma perform_gradient_sample:
  assumes "coherent f"
  shows "perform (specModel N sampleExterns) f (GetGradientOfPotential p)
         = Some (f\<lparr>polyhedronGravityCache := cacheAt N (polyhedronGravityCache f) p\<rparr>)"
  by (simp add: getGradientOfPotential_def specModel_fields coherent_update [OF assms]
        sampleExterns_def)

lemma perform_hessian_sample:
  assumes "coherent f"
  shows "perform (specModel N sampleExterns) f (GetHessianOfPotential p)
         = Some (f\<lparr>polyhedronGravityCache := cacheAt N (polyhedronGravityCache f) p\<rparr>)"
  by (simp add: getHessianOfPotential_def specModel_fields coherent_update [OF assms]
        sampleExterns_def)

lemma sample_run:
  "performAll (specModel sampleFormulas sampleExterns) tetrahedronField
     ([GetLaplacianOfPotential fieldPointA, GetGradientOfPotential fieldPointB,
       GetHessianOfPotential fieldPointA] @ [GetGravitationalPotential fieldPointB])
   = Some (tetrahedronField\<lparr>polyhedronGravityCache :=
             cacheAt sampleFormulas (polyhedronGravityCache tetrahedronField) fieldPointB\<rparr>)"
  by (simp del: perform.simps
        add: perform_laplacian_specModel perform_gradient_sample perform_hessian_sample
          perform_potential_specModel tetrahedronField_coherent coherent_cacheAt
          cacheAt_overwrites)

text \<open>
  The hypotheses of C6 hold for the tetrahedron and a sequence of one call of each
  evaluator.
\<close>

theorem cache_holds_latest_position_witness:
  "coherent tetrahedronField
   \<and> ext_update (specModel sampleFormulas sampleExterns) = update sampleFormulas
   \<and> performAll (specModel sampleFormulas sampleExterns) tetrahedronField
       ([GetLaplacianOfPotential fieldPointA, GetGradientOfPotential fieldPointB,
         GetHessianOfPotential fieldPointA] @ [GetGravitationalPotential fieldPointB])
     = Some (tetrahedronField\<lparr>polyhedronGravityCache :=
               cacheAt sampleFormulas (polyhedronGravityCache tetrahedronField) fieldPointB\<rparr>)
   \<and> getPerEdgeFactor (cacheAt sampleFormulas (polyhedronGravityCache tetrahedronField)
        fieldPointB)
     = perEdgeFactorsAt sampleFormulas (verticesCoordinates tetrahedronField)
         (verticesDefiningEachEdge tetrahedronField) fieldPointB
   \<and> currentBodyFixedPosition (cacheAt sampleFormulas (polyhedronGravityCache tetrahedronField)
        fieldPointB) = fieldPointB"
proof -
  have upd: "ext_update (specModel sampleFormulas sampleExterns) = update sampleFormulas"
    by (rule specModel_fields)
  from cache_holds_latest_position [OF tetrahedronField_coherent upd sample_run]
  have "getPerEdgeFactor (cacheAt sampleFormulas (polyhedronGravityCache tetrahedronField)
          fieldPointB)
        = perEdgeFactorsAt sampleFormulas (verticesCoordinates tetrahedronField)
            (verticesDefiningEachEdge tetrahedronField) fieldPointB"
    and "currentBodyFixedPosition
           (cacheAt sampleFormulas (polyhedronGravityCache tetrahedronField) fieldPointB)
         = fieldPointB"
    by auto
  with tetrahedronField_coherent upd sample_run show ?thesis
    by (intro conjI)
qed

text \<open>The hypothesis of C10 holds for the same sequence of calls.\<close>

theorem shape_unchanged_by_evaluators_witness:
  "performAll (specModel sampleFormulas sampleExterns)
       (newPolyhedronGravityField (Finite 2) (Finite (1 / 6)) tetrahedronVertices
          tetrahedronFacets tetrahedronEdges (replicate 4 unitMatrix) (replicate 6 unitMatrix)
          ''Tetra_Fixed'')
       ([GetLaplacianOfPotential fieldPointA, GetGradientOfPotential fieldPointB,
         GetHessianOfPotential fieldPointA] @ [GetGravitationalPotential fieldPointB])
     = Some (tetrahedronField\<lparr>polyhedronGravityCache :=
               cacheAt sampleFormulas (polyhedronGravityCache tetrahedronField) fieldPointB\<rparr>)
   \<and> getVolume (tetrahedronField\<lparr>polyhedronGravityCache :=
               cacheAt sampleFormulas (polyhedronGravityCache tetrahedronField) fieldPointB\<rparr>)
       = Finite (1 / 6)
   \<and> getVerticesDefiningEachFacet (tetrahedronField\<lparr>polyhedronGravityCache :=
               cacheAt sampleFormulas (polyhedronGravityCache tetrahedronField) fieldPointB\<rparr>)
       = tetrahedronFacets
   \<and> getEdgeDyads (tetrahedronField\<lparr>polyhedronGravityCache :=
               cacheAt sampleFormulas (polyhedronGravityCache tetrahedronField) fieldPointB\<rparr>)
       = replicate 6 unitMatrix"
proof -
  have run: "performAll (specModel sampleFormulas sampleExterns)
       (newPolyhedronGravityField (Finite 2) (Finite (1 / 6)) tetrahedronVertices
          tetrahedronFacets tetrahedronEdges (replicate 4 unitMatrix) (replicate 6 unitMatrix)
          ''Tetra_Fixed'')
       ([GetLaplacianOfPotential fieldPointA, GetGradientOfPotential fieldPointB,
         GetHessianOfPotential fieldPointA] @ [GetGravitationalPotential fieldPointB])
     = Some (tetrahedronField\<lparr>polyhedronGravityCache :=
               cacheAt sampleFormulas (polyhedronGravityCache tetrahedronField) fieldPointB\<rparr>)"
    using sample_run by (simp only: tetrahedronField_def)
  from run shape_unchanged_by_evaluators [OF run] show ?thesis
    by simp
qed

text \<open>
  With the stand-in formulas the sums of the tetrahedron have the values 354 and 240 at
  the first field point, and the per-facet factors sum to 97 at the second.
\<close>

lemma sample_edgeSum:
  "edgeSumAt sampleFormulas (verticesCoordinates tetrahedronField)
     (verticesDefiningEachEdge tetrahedronField) (edgeDyads tetrahedronField) fieldPointA
   = Finite 354"
  by (simp add: edgeSumAt_def sampleFormulas_def tetrahedronField_def
        newPolyhedronGravityField_def tetrahedronVertices_def tetrahedronEdges_def
        unitMatrix_def fieldPointA_def relativeVertex_def quadraticForm_def
        numeral_eq_Suc zero_double_def)

lemma sample_facetSum:
  "facetSumAt sampleFormulas (verticesCoordinates tetrahedronField)
     (verticesDefiningEachFacet tetrahedronField) (facetDyads tetrahedronField) fieldPointA
   = Finite 240"
  by (simp add: facetSumAt_def sampleFormulas_def tetrahedronField_def
        newPolyhedronGravityField_def tetrahedronVertices_def tetrahedronFacets_def
        unitMatrix_def fieldPointA_def relativeVertex_def quadraticForm_def
        numeral_eq_Suc zero_double_def)

lemma sample_facetFactors:
  "sum_list (perFacetFactorsAt sampleFormulas (verticesCoordinates tetrahedronField)
     (verticesDefiningEachFacet tetrahedronField) fieldPointB) = Finite 97"
  by (simp add: perFacetFactorsAt_def sampleFormulas_def tetrahedronField_def
        newPolyhedronGravityField_def tetrahedronVertices_def tetrahedronFacets_def
        fieldPointB_def relativeVertex_def
        numeral_eq_Suc zero_double_def)

text \<open>The hypothesis of C4 holds for the tetrahedron; the potential there is 684.\<close>

theorem potential_formula_witness:
  "coherent tetrahedronField
   \<and> getGravitationalPotential (specModel sampleFormulas sampleExterns) tetrahedronField
       fieldPointA
     = Some (Finite 684,
             tetrahedronField\<lparr>polyhedronGravityCache :=
               cacheAt sampleFormulas (polyhedronGravityCache tetrahedronField) fieldPointA\<rparr>)"
proof -
  have "gravitationalParameter tetrahedronField / volume tetrahedronField = Finite 12"
    by (simp add: tetrahedronField_def newPolyhedronGravityField_def)
  with potential_formula [OF tetrahedronField_coherent, of sampleFormulas sampleExterns fieldPointA]
    tetrahedronField_coherent
  show ?thesis
    by (simp add: sample_edgeSum sample_facetSum)
qed

text \<open>The hypothesis of C5 holds for the tetrahedron.\<close>

theorem laplacian_formula_witness:
  "coherent tetrahedronField
   \<and> getLaplacianOfPotential (specModel sampleFormulas sampleExterns) tetrahedronField
       fieldPointB
     = Some (Finite (- (4656 * pi)),
             tetrahedronField\<lparr>polyhedronGravityCache :=
               cacheAt sampleFormulas (polyhedronGravityCache tetrahedronField) fieldPointB\<rparr>)"
proof -
  have "gravitationalParameter tetrahedronField / volume tetrahedronField = Finite 12"
    by (simp add: tetrahedronField_def newPolyhedronGravityField_def)
  with laplacian_formula [OF tetrahedronField_coherent, of sampleFormulas sampleExterns fieldPointB]
    tetrahedronField_coherent
  show ?thesis
    by (simp add: sample_facetFactors)
qed

section \<open>Rejection of degenerate Keplerian elements\<close>

text \<open>Elements within the three conditions are converted.\<close>

lemma convert_valid_input:
  assumes "eccentricity k = 0 \<Longrightarrow> argumentOfPeriapsis k = 0"
    and "inclination k = 0 \<Longrightarrow> longitudeOfAscendingNode k = 0"
    and "0 \<le> inclination k" and "inclination k \<le> pi"
  shows "convertKeplerianToUnifiedStateModelWithExponentialMapElements formula k mu
           = Inr (formula k mu)"
  using assms
  by (auto simp add: convertKeplerianToUnifiedStateModelWithExponentialMapElements_def)

text \<open>
  Claim C2. The conversion from Keplerian elements raises the degenerate-geometry error,
  and returns no elements, whenever the eccentricity is zero with a non-zero argument of
  periapsis, or the inclination is zero with a non-zero longitude of the ascending node,
  or the inclination lies outside \<open>[0, \<pi>]\<close>. The result is a function of the input alone,
  so the same input fails the same way on every call.
\<close>

theorem degenerate_input_rejected:
  assumes "(eccentricity k = 0 \<and> argumentOfPeriapsis k \<noteq> 0)
           \<or> (inclination k = 0 \<and> longitudeOfAscendingNode k \<noteq> 0)
           \<or> inclination k < 0 \<or> pi < inclination k"
  shows "convertKeplerianToUnifiedStateModelWithExponentialMapElements formula k mu
           = Inl DegenerateGeometryError"
  using assms
  by (auto simp add: convertKeplerianToUnifiedStateModelWithExponentialMapElements_def)

text \<open>
  The three inputs for which the unit test expects a runtime error (cases 4, 5 and 8)
  satisfy the hypothesis of C2, one disjunct each.
\<close>

lemma case4_degenerate:
  "eccentricity testCase4 = 0 \<and> argumentOfPeriapsis testCase4 \<noteq> 0"
  by (simp add: testCase4_def convertDegreesToRadians_def)

lemma case5_degenerate:
  "inclination testCase5 = 0 \<and> longitudeOfAscendingNode testCase5 \<noteq> 0"
  by (simp add: testCase5_def testCase4_def convertDegreesToRadians_def)

lemma case8_degenerate: "pi < inclination testCase8"
proof -
  have "pi * 1 < pi * (200 / 180)"
    by (rule mult_strict_left_mono) (simp_all add: pi_gt_zero)
  then show ?thesis
    by (simp add: testCase8_def convertDegreesToRadians_def)
qed

theorem degenerate_input_rejected_witness:
  "(eccentricity testCase4 = 0 \<and> argumentOfPeriapsis testCase4 \<noteq> 0)
   \<and> (\<forall>formula. convertKeplerianToUnifiedStateModelWithExponentialMapElements formula
          testCase4 testGravitationalParameter = Inl DegenerateGeometryError)
   \<and> (inclination testCase5 = 0 \<and> longitudeOfAscendingNode testCase5 \<noteq> 0)
   \<and> (\<forall>formula. convertKeplerianToUnifiedStateModelWithExponentialMapElements formula
          testCase5 testGravitationalParameter = Inl DegenerateGeometryError)
   \<and> pi < inclination testCase8
   \<and> (\<forall>formula. convertKeplerianToUnifiedStateModelWithExponentialMapElements formula
          testCase8 testGravitationalParameter = Inl DegenerateGeometryError)"
  using case4_degenerate case5_degenerate case8_degenerate
    degenerate_input_rejected [of testCase4 _ testGravitationalParameter]
    degenerate_input_rejected [of testCase5 _ testGravitationalParameter]
    degenerate_input_rejected [of testCase8 _ testGravitationalParameter]
  by blast

end
